theory Spec2Isabelle
  imports Complex_Main "HOL-Library.Sublist"
begin

section \<open>The job manager of ozflux-lpjg\<close>

text \<open>
  The development embeds the classes \<^verbatim>\<open>_Job\<close> and \<^verbatim>\<open>JobManager\<close> of
  \<^verbatim>\<open>ozflux_parallel.py\<close> and the function \<^verbatim>\<open>log_progress\<close> of
  \<^verbatim>\<open>ozflux_logging.py\<close>.

  Conventions of the embedding:
  \<^item> Python floats are exact rationals (\<open>rat\<close>); rounding is not modelled. Python's
    \<^verbatim>\<open>/\<close> raises on a zero divisor, and so does every division below.
  \<^item> Python integers are \<open>int\<close>.
  \<^item> Every method takes the state it reads and writes and returns an outcome: it
    returns, it raises (the state reached at the raise is kept), or it blocks for ever.
  \<^item> An attribute that no statement assigns is an \<open>option\<close> field holding \<open>None\<close>;
    reading it raises \<^verbatim>\<open>AttributeError\<close>.
\<close>

subsection \<open>Exceptions and outcomes\<close>

text \<open>
  \<open>NotAContextManager\<close> is what \<^verbatim>\<open>with v:\<close> raises when the type of \<open>v\<close> has no
  \<^verbatim>\<open>__enter__\<close>/\<^verbatim>\<open>__exit__\<close> (a \<^verbatim>\<open>TypeError\<close> in Python 3.11 and later, an
  \<^verbatim>\<open>AttributeError\<close> before). \<open>MissingArgument\<close> is the \<^verbatim>\<open>TypeError\<close> of a call
  with too few positional arguments, \<open>UnpackError\<close> the error of a tuple assignment whose
  right-hand side is not a pair, \<open>HandleClosed\<close> the \<^verbatim>\<open>OSError\<close> of a closed
  connection, \<open>OverflowError\<close> the error of a \<^verbatim>\<open>timedelta\<close> out of range.
  \<open>WorkFailure\<close> stands for any exception a work function raises.
  \<open>InvalidArgument\<close> is the error named by the specification for a rejected weight; no
  statement of the source raises it.
\<close>

datatype error =
    NotAContextManager
  | MissingAttribute string
  | MissingArgument
  | UnpackError
  | IndexError
  | ZeroDivisionError
  | OverflowError
  | ValueError
  | HandleClosed
  | AssertionError
  | WorkFailure
  | InvalidArgument

datatype 's outcome = Returned 's | Raised error 's | Blocked

fun raised_error :: "'s outcome \<Rightarrow> error option" where
  "raised_error (Raised e s) = Some e"
| "raised_error (Returned s) = None"
| "raised_error Blocked = None"

fun state_of :: "'s outcome \<Rightarrow> 's option" where
  "state_of (Returned s) = Some s"
| "state_of (Raised e s) = Some s"
| "state_of Blocked = None"

subsection \<open>The progress sink of the logging module\<close>

text \<open>
  The module globals read by \<^verbatim>\<open>log_progress\<close>, and the wall clock.
  \<open>progress_calls\<close> records the argument of every call of \<^verbatim>\<open>log_progress\<close>,
  \<open>displayed\<close> the values it printed. The clock is an input of the program:
  \<open>clock g k\<close> is what the reading number \<open>k\<close> of \<^verbatim>\<open>datetime.datetime.now()\<close>
  shows, in microseconds since \<^verbatim>\<open>_progress_reporting_start\<close>, and \<open>reads\<close> counts
  the readings made so far. The text written for a warning is not part of the model.
\<close>

record logging =
  warnings_as_errors :: bool
  show_progress :: bool
  progress_calls :: "rat list"
  displayed :: "rat list"
  clock :: "nat \<Rightarrow> int"
  reads :: nat

text \<open>
  The module as it is after its import, with a clock on which less than a second passes.
\<close>

definition initial_logging :: logging where
  "initial_logging =
     \<lparr>warnings_as_errors = False, show_progress = False, progress_calls = [], displayed = [],
      clock = (\<lambda>k. 0), reads = 0\<rparr>"

text \<open>
  A \<^verbatim>\<open>timedelta\<close>, in microseconds, divided by a float: the quotient is rounded to
  the nearest microsecond, a tie to the even one. A \<^verbatim>\<open>timedelta\<close> holds at most
  999999999 days in either direction; a result beyond that raises \<^verbatim>\<open>OverflowError\<close>.
\<close>

definition round_half_even :: "rat \<Rightarrow> int" where
  "round_half_even x =
     (let f = \<lfloor>x\<rfloor>; d = x - of_int f
      in if d < 1 / 2 then f else if 1 / 2 < d then f + 1 else if even f then f else f + 1)"

definition timedelta_ok :: "int \<Rightarrow> bool" where
  "timedelta_ok us \<longleftrightarrow>
     - 999999999 \<le> us div 86400000000 \<and> us div 86400000000 \<le> 999999999"

text \<open>
  The time arithmetic of \<^verbatim>\<open>log_progress\<close> for a progress other than 0:
  \<^verbatim>\<open>total = elapsed / progress\<close> and \<^verbatim>\<open>remaining = total - elapsed\<close>, with
  \<open>elapsed\<close> in whole seconds.
\<close>

definition eta_overflows :: "int \<Rightarrow> rat \<Rightarrow> bool" where
  "eta_overflows elapsed p =
     (let total = round_half_even (of_int elapsed / p);
          remaining = total - elapsed
      in \<not> timedelta_ok total \<or> \<not> timedelta_ok remaining)"

text \<open>
  \<^verbatim>\<open>log_progress(progress)\<close>: a progress above 1 goes to \<^verbatim>\<open>log_warning\<close>, which
  raises \<^verbatim>\<open>ValueError\<close> when warnings are errors. Then the clock is read and the
  elapsed time cut to whole seconds; \<^verbatim>\<open>elapsed / progress\<close> raises
  \<^verbatim>\<open>ZeroDivisionError\<close> at progress 0 and \<^verbatim>\<open>OverflowError\<close> when the estimated
  time does not fit a \<^verbatim>\<open>timedelta\<close>. The value is printed when progress display is
  on.
\<close>

definition log_progress :: "rat \<Rightarrow> logging \<Rightarrow> logging outcome" where
  "log_progress p g0 =
     (let g = g0\<lparr>progress_calls := progress_calls g0 @ [p]\<rparr> in
      if p > 1 \<and> warnings_as_errors g then Raised ValueError g
      else
        (let now = clock g (reads g);
             g1 = g\<lparr>reads := reads g + 1\<rparr>;
             elapsed = now - now mod 1000000
         in if p = 0 then Raised ZeroDivisionError g1
            else if eta_overflows elapsed p then Raised OverflowError g1
            else if show_progress g1 then Returned (g1\<lparr>displayed := displayed g1 @ [p]\<rparr>)
            else Returned g1))"

subsection \<open>Work functions, pipes and jobs\<close>

text \<open>
  A work function is known by what it does with its callback: it calls it on the values
  of \<open>calls\<close>, in order, and then returns, or raises when \<open>fails\<close> is set. An exception
  raised by the callback passes through the work function.
\<close>

datatype workfn = WorkFn (calls: "rat list") (fails: bool)

text \<open>
  An object received from a pipe is a pair of a progress and a job id, or anything else.
\<close>

datatype message = Pair rat int | NotAPair

text \<open>
  A one-way pipe: the objects sent and not yet received, and whether its write end is
  closed in the process that holds the record. Both connection objects of a pipe are
  named by the index of the pipe.
\<close>

record pipe =
  pending :: "message list"
  writer_closed :: bool

text \<open>
  \<^verbatim>\<open>_Job\<close>: the fields set by \<^verbatim>\<open>__init__\<close>; \<open>started\<close> and \<open>joined\<close> are
  the process state kept by \<^verbatim>\<open>multiprocessing.Process\<close>.
\<close>

record job =
  jid :: int
  weight :: int
  func :: workfn
  progress_reader :: nat
  progress_writer :: nat
  progress :: rat
  started :: bool
  joined :: bool

datatype pyval = VInt int | VFunc workfn | VConn nat

text \<open>
  \<^verbatim>\<open>_Job.__init__(self, id, weight, func, progress_reader, progress_writer)\<close> applied
  to a list of positional arguments: five parameters have no default, so a call with
  another number of arguments raises. The fields of a job are typed, so the five
  arguments build a job when they are two integers, a work function and two connections,
  in this order; no call in the source passes five arguments.
\<close>

fun Job_init :: "pyval list \<Rightarrow> error + job" where
  "Job_init [VInt i, VInt w, VFunc f, VConn r, VConn wr] =
     Inr \<lparr>jid = i, weight = w, func = f, progress_reader = r, progress_writer = wr,
          progress = 0, started = False, joined = False\<rparr>"
| "Job_init args = Inl MissingArgument"

subsection \<open>The state of a JobManager and of its surroundings\<close>

text \<open>
  The fields of \<^verbatim>\<open>JobManager\<close>: \<open>lock\<close> is the counter of the bounded semaphore;
  \<open>job_weights\<close> and \<open>readers\<close> are the attributes \<^verbatim>\<open>_job_weights\<close> and
  \<^verbatim>\<open>_readers\<close>, which the methods read and \<^verbatim>\<open>__init__\<close> does not create.
  \<open>invoked\<close> lists the ids of the jobs whose work function was called in this process,
  \<open>pipes\<close> holds the pipes created so far, \<open>sink\<close> the globals of the logging module.
\<close>

record mstate =
  allow_parallel :: bool
  total_weight :: int
  jobs :: "job list"
  lock :: nat
  job_weights :: "int list option"
  readers :: "nat list option"
  invoked :: "int list"
  pipes :: "pipe list"
  sink :: logging

definition JobManager_init :: "bool \<Rightarrow> logging \<Rightarrow> mstate" where
  "JobManager_init ap g =
     \<lparr>allow_parallel = ap, total_weight = 0, jobs = [], lock = 1,
      job_weights = None, readers = None, invoked = [], pipes = [], sink = g\<rparr>"

text \<open>
  \<^verbatim>\<open>BoundedSemaphore.acquire()\<close> with its default arguments: it takes one unit and
  returns \<^verbatim>\<open>True\<close>, or waits for a release when the counter is 0. The source has no
  call of \<^verbatim>\<open>release\<close>, so a wait never ends: \<open>None\<close>.
\<close>

definition acquire :: "mstate \<Rightarrow> (bool \<times> mstate) option" where
  "acquire s = (if lock s > 0 then Some (True, s\<lparr>lock := lock s - 1\<rparr>) else None)"

text \<open>
  \<^verbatim>\<open>with b:\<close> for a boolean \<open>b\<close>: \<^verbatim>\<open>bool\<close> has no \<^verbatim>\<open>__enter__\<close>, so the
  statement raises before its body; \<open>None\<close> would mean that the body is entered.
\<close>

definition with_bool :: "bool \<Rightarrow> error option" where
  "with_bool b = Some NotAContextManager"

definition log_progress_in :: "rat \<Rightarrow> mstate \<Rightarrow> mstate outcome" where
  "log_progress_in p s =
     (case log_progress p (sink s) of
        Returned g \<Rightarrow> Returned (s\<lparr>sink := g\<rparr>)
      | Raised e g \<Rightarrow> Raised e (s\<lparr>sink := g\<rparr>)
      | Blocked \<Rightarrow> Blocked)"

subsection \<open>Running a job in the calling process\<close>

text \<open>
  \<^verbatim>\<open>_Job._progress_local(self, progress, start, total_weight)\<close>, for the job at
  index \<open>i\<close> of the job list. A job is named by its index in the list of its manager;
  the loops below pass indices within the list only.
\<close>

definition progress_local :: "nat \<Rightarrow> rat \<Rightarrow> int \<Rightarrow> int \<Rightarrow> mstate \<Rightarrow> mstate outcome" where
  "progress_local i p start tw s =
     (let s1 = s\<lparr>jobs := (jobs s)[i := (jobs s ! i)\<lparr>progress := p\<rparr>]\<rparr> in
      if tw = 0 then Raised ZeroDivisionError s1
      else log_progress_in ((of_int start + of_int (weight (jobs s1 ! i)) * p) / of_int tw) s1)"

text \<open>The calls of the callback \<^verbatim>\<open>lambda p: self._progress_local(p, start, total_weight)\<close>.\<close>

fun local_callbacks :: "nat \<Rightarrow> rat list \<Rightarrow> int \<Rightarrow> int \<Rightarrow> mstate \<Rightarrow> mstate outcome" where
  "local_callbacks i [] start tw s = Returned s"
| "local_callbacks i (p # ps) start tw s =
     (case progress_local i p start tw s of
        Returned s' \<Rightarrow> local_callbacks i ps start tw s'
      | Raised e s' \<Rightarrow> Raised e s'
      | Blocked \<Rightarrow> Blocked)"

text \<open>\<^verbatim>\<open>_Job.run_local(self, start, total_weight)\<close>.\<close>

definition run_local :: "nat \<Rightarrow> int \<Rightarrow> int \<Rightarrow> mstate \<Rightarrow> mstate outcome" where
  "run_local i start tw s =
     (let f = func (jobs s ! i);
          s0 = s\<lparr>invoked := invoked s @ [jid (jobs s ! i)]\<rparr>
      in case local_callbacks i (calls f) start tw s0 of
           Returned s' \<Rightarrow> if fails f then Raised WorkFailure s' else Returned s'
         | Raised e s' \<Rightarrow> Raised e s'
         | Blocked \<Rightarrow> Blocked)"

text \<open>
  The loop of \<^verbatim>\<open>run_single_threaded\<close> over the indices of the job list, with the
  running \<^verbatim>\<open>cum_weight\<close>.
\<close>

fun run_each :: "nat list \<Rightarrow> int \<Rightarrow> mstate \<Rightarrow> mstate outcome" where
  "run_each [] cum s = Returned s"
| "run_each (i # rest) cum s =
     (case run_local i cum (total_weight s) s of
        Returned s' \<Rightarrow> run_each rest (cum + weight (jobs s' ! i)) s'
      | Raised e s' \<Rightarrow> Raised e s'
      | Blocked \<Rightarrow> Blocked)"

definition run_single_threaded_body :: "mstate \<Rightarrow> mstate outcome" where
  "run_single_threaded_body s = run_each [0..<length (jobs s)] 0 s"

text \<open>\<^verbatim>\<open>JobManager.run_single_threaded(self)\<close>.\<close>

definition run_single_threaded :: "mstate \<Rightarrow> mstate outcome" where
  "run_single_threaded s =
     (case acquire s of
        None \<Rightarrow> Blocked
      | Some (v, s1) \<Rightarrow>
          (case with_bool v of
             Some e \<Rightarrow> Raised e s1
           | None \<Rightarrow> run_single_threaded_body s1))"

subsection \<open>Registering a job\<close>

definition close_writer :: "nat \<Rightarrow> mstate \<Rightarrow> mstate" where
  "close_writer w s =
     (if w < length (pipes s)
      then s\<lparr>pipes := (pipes s)[w := (pipes s ! w)\<lparr>writer_closed := True\<rparr>]\<rparr>
      else s)"

text \<open>The statements under the \<^verbatim>\<open>with\<close> of \<^verbatim>\<open>add_job\<close>.\<close>

definition add_job_body :: "workfn \<Rightarrow> int \<Rightarrow> mstate \<Rightarrow> mstate outcome" where
  "add_job_body f w s =
     (let job_id = int (length (jobs s)) in
      case job_weights s of
        None \<Rightarrow> Raised (MissingAttribute ''_job_weights'') s
      | Some ws \<Rightarrow>
          (let s1 = s\<lparr>job_weights := Some (ws @ [w])\<rparr>;
               s2 = s1\<lparr>total_weight := total_weight s1 + w\<rparr>;
               c = length (pipes s2);
               s3 = s2\<lparr>pipes := pipes s2 @ [\<lparr>pending = [], writer_closed = False\<rparr>]\<rparr>
           in case Job_init [VInt job_id, VFunc f, VConn c, VConn c] of
                Inl e \<Rightarrow> Raised e s3
              | Inr j \<Rightarrow>
                  (let s4 = close_writer c s3 in Returned (s4\<lparr>jobs := jobs s4 @ [j]\<rparr>))))"

text \<open>\<^verbatim>\<open>JobManager.add_job(self, func, weight)\<close>.\<close>

definition add_job :: "workfn \<Rightarrow> int \<Rightarrow> mstate \<Rightarrow> mstate outcome" where
  "add_job f w s =
     (case acquire s of
        None \<Rightarrow> Blocked
      | Some (v, s1) \<Rightarrow>
          (case with_bool v of
             Some e \<Rightarrow> Raised e s1
           | None \<Rightarrow> add_job_body f w s1))"

subsection \<open>Progress reports of the workers\<close>

text \<open>\<^verbatim>\<open>self._jobs[id]\<close>: a negative index counts from the end.\<close>

definition job_index :: "job list \<Rightarrow> int \<Rightarrow> nat option" where
  "job_index js i =
     (let n = int (length js); k = (if i < 0 then n + i else i)
      in if 0 \<le> k \<and> k < n then Some (nat k) else None)"

text \<open>\<^verbatim>\<open>JobManager._progress_reporter(self, progress, id)\<close>.\<close>

definition progress_reporter :: "rat \<Rightarrow> int \<Rightarrow> mstate \<Rightarrow> mstate outcome" where
  "progress_reporter p i s =
     (case job_index (jobs s) i of
        None \<Rightarrow> Raised IndexError s
      | Some k \<Rightarrow>
          if total_weight s = 0 then Raised ZeroDivisionError s
          else
            (let w = of_int (weight (jobs s ! k)) / of_int (total_weight s);
                 s1 = s\<lparr>jobs := (jobs s)[k := (jobs s ! k)\<lparr>progress := w * p\<rparr>]\<rparr>;
                 aggregate_progress = sum_list (map progress (jobs s1))
             in log_progress_in aggregate_progress s1))"

subsection \<open>The worker's side: running a job in its own process\<close>

text \<open>
  The calls of the callback \<^verbatim>\<open>lambda p: self.progress_writer.send((p, self.id))\<close>
  on the worker's pipe; \<^verbatim>\<open>send\<close> raises on a closed connection.
\<close>

fun send_all :: "int \<Rightarrow> rat list \<Rightarrow> pipe \<Rightarrow> pipe outcome" where
  "send_all i [] c = Returned c"
| "send_all i (p # ps) c =
     (if writer_closed c then Raised HandleClosed c
      else send_all i ps (c\<lparr>pending := pending c @ [Pair p i]\<rparr>))"

text \<open>\<^verbatim>\<open>_Job.run(self)\<close>: the work function, then \<^verbatim>\<open>self.progress_writer.close()\<close>.\<close>

definition Job_run :: "job \<Rightarrow> pipe \<Rightarrow> pipe outcome" where
  "Job_run j c =
     (case send_all (jid j) (calls (func j)) c of
        Returned c' \<Rightarrow>
          if fails (func j) then Raised WorkFailure c'
          else Returned (c'\<lparr>writer_closed := True\<rparr>)
      | Raised e c' \<Rightarrow> Raised e c'
      | Blocked \<Rightarrow> Blocked)"

text \<open>
  What a finished worker leaves in the manager's pipe: the objects it sent. The worker
  is a copy of the manager's process, so its write end is open or closed as the manager's
  is when the worker starts. What the worker closes is its own copy: the manager's write
  end stays as it is, and the reader reaches the end of the stream only when the
  manager's write end is closed as well.
\<close>

definition worker :: "job \<Rightarrow> pipe \<Rightarrow> pipe" where
  "worker j c =
     (case state_of (Job_run j c) of
        Some c' \<Rightarrow> c'\<lparr>writer_closed := writer_closed c\<rparr>
      | None \<Rightarrow> c)"

subsection \<open>Parallel execution\<close>

text \<open>
  \<^verbatim>\<open>Process.start()\<close> for the job at index \<open>i\<close>: a process is started once. The
  worker is taken to run to its end at once, which is one of the schedules of the
  processes.
\<close>

definition start :: "nat \<Rightarrow> mstate \<Rightarrow> mstate outcome" where
  "start i s =
     (let j = jobs s ! i; c = progress_writer j in
      if started j then Raised AssertionError s
      else
        (let s1 = s\<lparr>jobs := (jobs s)[i := j\<lparr>started := True\<rparr>]\<rparr>
         in if c < length (pipes s1)
            then Returned (s1\<lparr>pipes := (pipes s1)[c := worker j (pipes s1 ! c)]\<rparr>)
            else Returned s1))"

fun start_each :: "nat list \<Rightarrow> mstate \<Rightarrow> mstate outcome" where
  "start_each [] s = Returned s"
| "start_each (i # rest) s =
     (case start i s of
        Returned s' \<Rightarrow> start_each rest s'
      | Raised e s' \<Rightarrow> Raised e s'
      | Blocked \<Rightarrow> Blocked)"

text \<open>\<^verbatim>\<open>Process.join()\<close>: only a started process can be joined.\<close>

definition join :: "nat \<Rightarrow> mstate \<Rightarrow> mstate outcome" where
  "join i s =
     (let j = jobs s ! i in
      if started j then Returned (s\<lparr>jobs := (jobs s)[i := j\<lparr>joined := True\<rparr>]\<rparr>)
      else Raised AssertionError s)"

fun join_each :: "nat list \<Rightarrow> mstate \<Rightarrow> mstate outcome" where
  "join_each [] s = Returned s"
| "join_each (i # rest) s =
     (case join i s of
        Returned s' \<Rightarrow> join_each rest s'
      | Raised e s' \<Rightarrow> Raised e s'
      | Blocked \<Rightarrow> Blocked)"

text \<open>
  The \<^verbatim>\<open>try\<close> statement of \<^verbatim>\<open>_wait\<close> for the reader of pipe \<open>r\<close>.
  \<^verbatim>\<open>poll()\<close> is true when an object is pending or the write end is closed;
  \<^verbatim>\<open>recv()\<close> then returns the first pending object, or raises \<^verbatim>\<open>EOFError\<close>
  when there is none, and the handler removes the reader from \<^verbatim>\<open>self._readers\<close>.
  No other exception is handled. A reader without a pipe is a closed connection.
\<close>

definition poll_step :: "nat \<Rightarrow> mstate \<Rightarrow> mstate outcome" where
  "poll_step r s =
     (if r \<ge> length (pipes s) then Raised HandleClosed s
      else
        (case pending (pipes s ! r) of
           [] \<Rightarrow>
             if writer_closed (pipes s ! r)
             then Returned (s\<lparr>readers := map_option (remove1 r) (readers s)\<rparr>)
             else Returned s
         | m # ms \<Rightarrow>
             (let s1 = s\<lparr>pipes := (pipes s)[r := (pipes s ! r)\<lparr>pending := ms\<rparr>]\<rparr>
              in case m of
                   NotAPair \<Rightarrow> Raised UnpackError s1
                 | Pair p idx \<Rightarrow> progress_reporter p idx s1)))"

text \<open>
  \<^verbatim>\<open>for reader in self._readers\<close>: the iterator keeps an index into the list, which
  the handler shortens while the loop runs.
\<close>

function for_readers :: "nat \<Rightarrow> mstate \<Rightarrow> mstate outcome" where
  "for_readers i s =
     (case readers s of
        None \<Rightarrow> Raised (MissingAttribute ''_readers'') s
      | Some rs \<Rightarrow>
          if i < length rs
          then (case poll_step (rs ! i) s of
                  Returned s' \<Rightarrow> for_readers (Suc i) s'
                | Raised e s' \<Rightarrow> Raised e s'
                | Blocked \<Rightarrow> Blocked)
          else Returned s)"
  by pat_completeness auto
termination
  apply (relation "measure (\<lambda>(i, s). length (case readers s of None \<Rightarrow> [] | Some rs \<Rightarrow> rs) - i)")
   apply simp
  apply (auto simp: poll_step_def progress_reporter_def log_progress_in_def log_progress_def
      Let_def length_remove1
      split: if_splits list.splits message.splits option.splits outcome.splits)
  done

text \<open>
  \<^verbatim>\<open>while self._readers\<close>: the fuel bounds the number of passes; \<open>None\<close> says that
  the loop is still polling when the fuel is used up.
\<close>

fun wait_loop :: "nat \<Rightarrow> mstate \<Rightarrow> mstate outcome option" where
  "wait_loop n s =
     (case readers s of
        None \<Rightarrow> Some (Raised (MissingAttribute ''_readers'') s)
      | Some rs \<Rightarrow>
          if rs = [] then Some (Returned s)
          else (case n of
                  0 \<Rightarrow> None
                | Suc m \<Rightarrow>
                    (case for_readers 0 s of
                       Returned s' \<Rightarrow> wait_loop m s'
                     | Raised e s' \<Rightarrow> Some (Raised e s')
                     | Blocked \<Rightarrow> Some Blocked)))"

text \<open>\<^verbatim>\<open>JobManager._wait(self)\<close>.\<close>

definition wait :: "nat \<Rightarrow> mstate \<Rightarrow> mstate outcome option" where
  "wait n s =
     (case wait_loop n s of
        Some (Returned s') \<Rightarrow> Some (join_each [0..<length (jobs s')] s')
      | Some (Raised e s') \<Rightarrow> Some (Raised e s')
      | Some Blocked \<Rightarrow> Some Blocked
      | None \<Rightarrow> None)"

definition run_parallel_body :: "nat \<Rightarrow> mstate \<Rightarrow> mstate outcome option" where
  "run_parallel_body n s =
     (case start_each [0..<length (jobs s)] s of
        Returned s' \<Rightarrow> wait n s'
      | Raised e s' \<Rightarrow> Some (Raised e s')
      | Blocked \<Rightarrow> Some Blocked)"

text \<open>\<^verbatim>\<open>JobManager.run_parallel(self)\<close>.\<close>

definition run_parallel :: "nat \<Rightarrow> mstate \<Rightarrow> mstate outcome option" where
  "run_parallel n s =
     (case acquire s of
        None \<Rightarrow> Some Blocked
      | Some (v, s1) \<Rightarrow>
          (case with_bool v of
             Some e \<Rightarrow> Some (Raised e s1)
           | None \<Rightarrow> run_parallel_body n s1))"

subsection \<open>Programs that call the manager\<close>

text \<open>
  A caller makes the public calls one after the other and goes on after an exception. A
  call that blocks, or a wait loop that never ends, is the last thing the caller does.
\<close>

datatype call = AddJob workfn int | RunParallel | RunSingleThreaded

fun do_call :: "nat \<Rightarrow> call \<Rightarrow> mstate \<Rightarrow> mstate outcome option" where
  "do_call n (AddJob f w) s = Some (add_job f w s)"
| "do_call n RunParallel s = run_parallel n s"
| "do_call n RunSingleThreaded s = Some (run_single_threaded s)"

fun run_calls :: "nat \<Rightarrow> call list \<Rightarrow> mstate \<Rightarrow> mstate" where
  "run_calls n [] s = s"
| "run_calls n (c # cs) s =
     (case do_call n c s of
        Some (Returned s') \<Rightarrow> run_calls n cs s'
      | Some (Raised e s') \<Rightarrow> run_calls n cs s'
      | Some Blocked \<Rightarrow> s
      | None \<Rightarrow> s)"

subsection \<open>Managers that hold jobs\<close>

text \<open>
  The job that \<^verbatim>\<open>_Job.__init__\<close> builds from an id, a weight, a work function and
  the two ends of pipe \<open>c\<close>, and a manager whose job list and total weight have been
  filled in directly: the methods that work on registered jobs are studied on such
  managers.
\<close>

definition new_job :: "int \<Rightarrow> int \<Rightarrow> workfn \<Rightarrow> nat \<Rightarrow> job" where
  "new_job i w f c =
     \<lparr>jid = i, weight = w, func = f, progress_reader = c, progress_writer = c,
      progress = 0, started = False, joined = False\<rparr>"

definition with_jobs :: "job list \<Rightarrow> mstate \<Rightarrow> mstate" where
  "with_jobs js s = s\<lparr>jobs := js, total_weight := sum_list (map weight js)\<rparr>"

text \<open>
  The state a call leaves behind (a call that blocks leaves the state as it is), and the
  values that reached the sink between two states.
\<close>

definition after :: "mstate outcome \<Rightarrow> mstate \<Rightarrow> mstate" where
  "after r s = (case state_of r of Some s' \<Rightarrow> s' | None \<Rightarrow> s)"

definition reports_since :: "mstate \<Rightarrow> mstate \<Rightarrow> rat list" where
  "reports_since s s' = drop (length (progress_calls (sink s))) (progress_calls (sink s'))"

text \<open>The bound \<^verbatim>\<open>0 <= job.progress <= job.weight\<close> on one job.\<close>

definition within_weight :: "job \<Rightarrow> bool" where
  "within_weight j \<longleftrightarrow> 0 \<le> progress j \<and> progress j \<le> of_int (weight j)"




section \<open>Properties\<close>

subsection \<open>What the public methods do\<close>

text \<open>
  Each public method takes the semaphore and then raises at its \<^verbatim>\<open>with\<close> statement,
  or waits for the semaphore for ever; the statements under the \<^verbatim>\<open>with\<close> do not run.
\<close>

lemma add_job_outcome:
  "add_job f w s =
     (if lock s > 0 then Raised NotAContextManager (s\<lparr>lock := lock s - 1\<rparr>) else Blocked)"
  by (simp add: add_job_def acquire_def with_bool_def)

lemma run_single_threaded_outcome:
  "run_single_threaded s =
     (if lock s > 0 then Raised NotAContextManager (s\<lparr>lock := lock s - 1\<rparr>) else Blocked)"
  by (simp add: run_single_threaded_def acquire_def with_bool_def)

lemma run_parallel_outcome:
  "run_parallel n s =
     Some (if lock s > 0 then Raised NotAContextManager (s\<lparr>lock := lock s - 1\<rparr>) else Blocked)"
  by (simp add: run_parallel_def acquire_def with_bool_def)

lemma do_call_outcome:
  "do_call n c s =
     Some (if lock s > 0 then Raised NotAContextManager (s\<lparr>lock := lock s - 1\<rparr>) else Blocked)"
  by (cases c) (simp_all add: add_job_outcome run_single_threaded_outcome run_parallel_outcome)

text \<open>A caller's program changes nothing but the counter of the semaphore.\<close>

lemma run_calls_lock_only: "\<exists>k. run_calls n cs s = s\<lparr>lock := k\<rparr>"
proof (induction cs arbitrary: s)
  case Nil
  have "run_calls n [] s = s\<lparr>lock := lock s\<rparr>" by simp
  then show ?case ..
next
  case (Cons c cs)
  show ?case
  proof (cases "lock s > 0")
    case True
    obtain k where k:
      "run_calls n cs (s\<lparr>lock := lock s - 1\<rparr>) = s\<lparr>lock := lock s - 1\<rparr>\<lparr>lock := k\<rparr>"
      using Cons.IH by blast
    have "run_calls n (c # cs) s = run_calls n cs (s\<lparr>lock := lock s - 1\<rparr>)"
      using True by (simp add: do_call_outcome)
    also have "\<dots> = s\<lparr>lock := k\<rparr>" unfolding k by simp
    finally show ?thesis ..
  next
    case False
    have "run_calls n (c # cs) s = s" using False by (simp add: do_call_outcome)
    also have "\<dots> = s\<lparr>lock := lock s\<rparr>" by simp
    finally show ?thesis ..
  qed
qed

text \<open>
  Claim C1. On a manager that was just constructed, \<^verbatim>\<open>add_job\<close>,
  \<^verbatim>\<open>run_parallel\<close> and \<^verbatim>\<open>run_single_threaded\<close> each raise at the \<^verbatim>\<open>with\<close>
  statement, before the statements under it, whatever the arguments, and leave every
  field but the semaphore as it was. Whatever sequence of public calls a caller then
  makes, the job list stays empty, \<^verbatim>\<open>_total_weight\<close> stays 0, no work function is
  invoked, and nothing reaches the progress sink.
\<close>

theorem fresh_manager_calls_raise:
  "add_job f w (JobManager_init ap g) =
     Raised NotAContextManager ((JobManager_init ap g)\<lparr>lock := 0\<rparr>)
   \<and> run_parallel n (JobManager_init ap g) =
     Some (Raised NotAContextManager ((JobManager_init ap g)\<lparr>lock := 0\<rparr>))
   \<and> run_single_threaded (JobManager_init ap g) =
     Raised NotAContextManager ((JobManager_init ap g)\<lparr>lock := 0\<rparr>)
   \<and> jobs (run_calls n cs (JobManager_init ap g)) = []
   \<and> total_weight (run_calls n cs (JobManager_init ap g)) = 0
   \<and> invoked (run_calls n cs (JobManager_init ap g)) = []
   \<and> sink (run_calls n cs (JobManager_init ap g)) = g"
proof -
  obtain k where k:
    "run_calls n cs (JobManager_init ap g) = (JobManager_init ap g)\<lparr>lock := k\<rparr>"
    using run_calls_lock_only by blast
  have l: "lock (JobManager_init ap g) = 1" by (simp add: JobManager_init_def)
  show ?thesis
    unfolding k by (simp add: add_job_outcome run_parallel_outcome run_single_threaded_outcome l)
      (simp add: JobManager_init_def)
qed

subsection \<open>Registration\<close>

text \<open>
  Claim C2, as stated, at weight 0: the call on a new manager fails, and the error is
  not \<open>InvalidArgument\<close>. \<^verbatim>\<open>add_job\<close> has no test of the weight.
\<close>

theorem add_job_weight_zero_counterexample:
  "raised_error (add_job (WorkFn [] False) 0 (JobManager_init True initial_logging))
     \<noteq> Some InvalidArgument"
  by (simp add: add_job_outcome JobManager_init_def)

text \<open>
  Claim C2, amended. For every work function and every weight, zero and negative ones
  among them, a call of \<^verbatim>\<open>add_job\<close> that fails does not fail with
  \<open>InvalidArgument\<close>, and after it \<^verbatim>\<open>_total_weight\<close> and the job list are as they
  were before the call.
\<close>

theorem add_job_failure_keeps_registry:
  "add_job f w s = Raised e s' \<Longrightarrow>
     e \<noteq> InvalidArgument \<and> total_weight s' = total_weight s \<and> jobs s' = jobs s"
  by (auto simp: add_job_outcome split: if_splits)

text \<open>The amended claim at weight 0 on a new manager.\<close>

theorem add_job_failure_keeps_registry_witness:
  "add_job (WorkFn [] False) 0 (JobManager_init True initial_logging) =
     Raised NotAContextManager ((JobManager_init True initial_logging)\<lparr>lock := 0\<rparr>)
   \<and> NotAContextManager \<noteq> InvalidArgument
   \<and> total_weight ((JobManager_init True initial_logging)\<lparr>lock := 0\<rparr>) =
       total_weight (JobManager_init True initial_logging)
   \<and> jobs ((JobManager_init True initial_logging)\<lparr>lock := 0\<rparr>) =
       jobs (JobManager_init True initial_logging)"
proof -
  have h: "add_job (WorkFn [] False) 0 (JobManager_init True initial_logging) =
     Raised NotAContextManager ((JobManager_init True initial_logging)\<lparr>lock := 0\<rparr>)"
    by (simp add: add_job_outcome JobManager_init_def)
  show ?thesis using h add_job_failure_keeps_registry [OF h] by simp
qed

text \<open>
  Claim C5 on the code. A call of \<^verbatim>\<open>add_job\<close> with weight 2 on a new manager raises
  at the \<^verbatim>\<open>with\<close> statement: no job is appended and no weight is added. The
  statements under the \<^verbatim>\<open>with\<close>, were they reached, raise at
  \<^verbatim>\<open>self._job_weights.append(weight)\<close>; and on a manager that has been given a
  \<^verbatim>\<open>_job_weights\<close> list they add the weight to \<^verbatim>\<open>_total_weight\<close> and then raise
  at \<^verbatim>\<open>_Job(job_id, func, reader, writer)\<close>, which lacks the weight argument, with
  the job list still empty.
\<close>

theorem add_job_registers_nothing:
  "add_job (WorkFn [] False) 2 (JobManager_init True initial_logging) =
     Raised NotAContextManager ((JobManager_init True initial_logging)\<lparr>lock := 0\<rparr>)
   \<and> add_job_body (WorkFn [] False) 2 (JobManager_init True initial_logging) =
     Raised (MissingAttribute ''_job_weights'') (JobManager_init True initial_logging)
   \<and> add_job_body (WorkFn [] False) 2
        ((JobManager_init True initial_logging)\<lparr>job_weights := Some []\<rparr>) =
     Raised MissingArgument
       ((JobManager_init True initial_logging)
          \<lparr>job_weights := Some [2], total_weight := 2,
           pipes := [\<lparr>pending = [], writer_closed = False\<rparr>]\<rparr>)"
  by (simp add: add_job_outcome add_job_body_def JobManager_init_def)

subsection \<open>The lock\<close>

text \<open>
  Claim C8 on the code. The first public call on a new manager takes the semaphore and
  raises without releasing it; every later call of \<^verbatim>\<open>add_job\<close>,
  \<^verbatim>\<open>run_parallel\<close> or \<^verbatim>\<open>run_single_threaded\<close> waits for it for ever.
\<close>

theorem lock_stays_taken:
  "add_job f w (JobManager_init ap g) =
     Raised NotAContextManager ((JobManager_init ap g)\<lparr>lock := 0\<rparr>)
   \<and> add_job f' w' ((JobManager_init ap g)\<lparr>lock := 0\<rparr>) = Blocked
   \<and> run_parallel n ((JobManager_init ap g)\<lparr>lock := 0\<rparr>) = Some Blocked
   \<and> run_single_threaded ((JobManager_init ap g)\<lparr>lock := 0\<rparr>) = Blocked"
  by (simp add: add_job_outcome run_parallel_outcome run_single_threaded_outcome
      JobManager_init_def)

subsection \<open>Parallel execution\<close>

text \<open>
  Claim C6 on the code. \<^verbatim>\<open>run_parallel\<close> returns from no state: it raises at its
  \<^verbatim>\<open>with\<close> statement or waits for the semaphore. On a new manager it raises, and
  \<^verbatim>\<open>_wait\<close>, called on a new manager, raises at \<^verbatim>\<open>while self._readers\<close>, an
  attribute that no statement creates: no worker is started, polled or joined.
\<close>

theorem run_parallel_never_returns:
  "run_parallel n s \<noteq> Some (Returned s')
   \<and> run_parallel n (JobManager_init ap g) =
       Some (Raised NotAContextManager ((JobManager_init ap g)\<lparr>lock := 0\<rparr>))
   \<and> wait n (JobManager_init ap g) =
       Some (Raised (MissingAttribute ''_readers'') (JobManager_init ap g))"
  by (simp add: run_parallel_outcome wait_def JobManager_init_def)

text \<open>
  Claim C9, as stated, at a malformed message: with one reader whose pipe holds an object
  that is not a pair, \<^verbatim>\<open>_wait\<close> raises the unpacking error to its caller and the
  reader stays in \<^verbatim>\<open>self._readers\<close>.
\<close>

theorem wait_malformed_counterexample:
  "wait 1 ((JobManager_init True initial_logging)
             \<lparr>readers := Some [0], pipes := [\<lparr>pending = [NotAPair], writer_closed = False\<rparr>]\<rparr>) =
     Some (Raised UnpackError
       ((JobManager_init True initial_logging)
             \<lparr>readers := Some [0], pipes := [\<lparr>pending = [], writer_closed = False\<rparr>]\<rparr>))"
  by (simp add: wait_def poll_step_def JobManager_init_def)

text \<open>
  Claim C9, amended. In a pass of the wait loop over the readers, a reader whose pipe is
  closed and empty (by a normal or an abrupt closure, which the reader cannot tell apart)
  is removed from the active set and the pass goes on with the next index; a reader whose
  next object is not a pair makes the pass raise the unpacking error, with the reader
  still in the active set.
\<close>

theorem wait_pass_eof_and_malformed:
  assumes "readers s = Some rs" and "i < length rs" and "rs ! i < length (pipes s)"
  shows "(pending (pipes s ! (rs ! i)) = [] \<and> writer_closed (pipes s ! (rs ! i)) \<longrightarrow>
            for_readers i s = for_readers (Suc i) (s\<lparr>readers := Some (remove1 (rs ! i) rs)\<rparr>))
       \<and> (pending (pipes s ! (rs ! i)) = NotAPair # ms \<longrightarrow>
            for_readers i s =
              Raised UnpackError
                (s\<lparr>pipes := (pipes s)[rs ! i := (pipes s ! (rs ! i))\<lparr>pending := ms\<rparr>]\<rparr>))"
  using assms by (subst for_readers.simps, simp add: poll_step_def)+

text \<open>The amended claim on one closed and empty pipe, and on one malformed message.\<close>

theorem wait_pass_eof_and_malformed_witness:
  "for_readers 0 ((JobManager_init True initial_logging)
       \<lparr>readers := Some [0], pipes := [\<lparr>pending = [], writer_closed = True\<rparr>]\<rparr>) =
     Returned ((JobManager_init True initial_logging)
       \<lparr>readers := Some [], pipes := [\<lparr>pending = [], writer_closed = True\<rparr>]\<rparr>)
   \<and> for_readers 0 ((JobManager_init True initial_logging)
       \<lparr>readers := Some [0], pipes := [\<lparr>pending = [NotAPair], writer_closed = True\<rparr>]\<rparr>) =
     Raised UnpackError ((JobManager_init True initial_logging)
       \<lparr>readers := Some [0], pipes := [\<lparr>pending = [], writer_closed = True\<rparr>]\<rparr>)"
proof -
  let ?a = "(JobManager_init True initial_logging)
       \<lparr>readers := Some [0], pipes := [\<lparr>pending = [], writer_closed = True\<rparr>]\<rparr>"
  let ?b = "(JobManager_init True initial_logging)
       \<lparr>readers := Some [0], pipes := [\<lparr>pending = [NotAPair], writer_closed = True\<rparr>]\<rparr>"
  have a: "readers ?a = Some [0]" "(0::nat) < length [0::nat]" "[0::nat] ! 0 < length (pipes ?a)"
    by simp_all
  have b: "readers ?b = Some [0]" "(0::nat) < length [0::nat]" "[0::nat] ! 0 < length (pipes ?b)"
    by simp_all
  show ?thesis
    using wait_pass_eof_and_malformed [OF a] wait_pass_eof_and_malformed [OF b, of "[]"]
    by (simp add: for_readers.simps [of "Suc 0"])
qed

subsection \<open>The worker\<close>

lemma send_all_open:
  "\<not> writer_closed c \<Longrightarrow>
     send_all i ps c = Returned (c\<lparr>pending := pending c @ map (\<lambda>p. Pair p i) ps\<rparr>)"
  by (induction ps arbitrary: c) simp_all

text \<open>
  Claim C7, as stated, at a work function that reports 1/2 and then raises:
  \<^verbatim>\<open>_Job.run\<close> ends with the exception and the write end of its pipe still open.
\<close>

theorem Job_run_failure_counterexample:
  "Job_run (new_job 0 1 (WorkFn [1 / 2] True) 0) \<lparr>pending = [], writer_closed = False\<rparr> =
     Raised WorkFailure \<lparr>pending = [Pair (1 / 2) 0], writer_closed = False\<rparr>"
  by (simp add: Job_run_def new_job_def)

text \<open>
  Claim C7, amended. On an open pipe, \<^verbatim>\<open>_Job.run\<close> sends one pair of progress and
  job id for each call of the callback and nothing else. When the work function returns,
  \<^verbatim>\<open>run\<close> closes the write end and returns; when the work function raises,
  \<^verbatim>\<open>run\<close> ends with that exception, the write end is not closed by \<^verbatim>\<open>run\<close>, and
  the pipe carries no trace of the error.
\<close>

theorem Job_run_closes_on_return_only:
  assumes "\<not> writer_closed c"
  shows "(fails (func j) \<longrightarrow>
            Job_run j c =
              Raised WorkFailure
                (c\<lparr>pending := pending c @ map (\<lambda>p. Pair p (jid j)) (calls (func j))\<rparr>))
       \<and> (\<not> fails (func j) \<longrightarrow>
            Job_run j c =
              Returned
                (c\<lparr>pending := pending c @ map (\<lambda>p. Pair p (jid j)) (calls (func j)),
                   writer_closed := True\<rparr>))"
  using assms by (simp add: Job_run_def send_all_open)

text \<open>The amended claim on a work function that fails and on one that returns.\<close>

theorem Job_run_closes_on_return_only_witness:
  "\<not> writer_closed \<lparr>pending = [], writer_closed = False\<rparr>
   \<and> Job_run (new_job 3 1 (WorkFn [1 / 2, 1] True) 0) \<lparr>pending = [], writer_closed = False\<rparr> =
       Raised WorkFailure \<lparr>pending = [Pair (1 / 2) 3, Pair 1 3], writer_closed = False\<rparr>
   \<and> Job_run (new_job 3 1 (WorkFn [1 / 2, 1] False) 0) \<lparr>pending = [], writer_closed = False\<rparr> =
       Returned \<lparr>pending = [Pair (1 / 2) 3, Pair 1 3], writer_closed = True\<rparr>"
proof -
  have h: "\<not> writer_closed \<lparr>pending = [], writer_closed = False\<rparr>" by simp
  show ?thesis
    using h
      Job_run_closes_on_return_only [OF h, of "new_job 3 1 (WorkFn [1 / 2, 1] True) 0"]
      Job_run_closes_on_return_only [OF h, of "new_job 3 1 (WorkFn [1 / 2, 1] False) 0"]
    by (simp add: new_job_def)
qed

subsection \<open>Sequential execution\<close>

text \<open>
  Claim C3 on the code. A caller that registers jobs of weights 1 and 3 and runs them
  sequentially gets no report at all: the first \<^verbatim>\<open>add_job\<close> raises and registers
  nothing, and the later calls wait for the semaphore. On a manager that holds the two
  jobs, \<^verbatim>\<open>run_single_threaded\<close> raises at its \<^verbatim>\<open>with\<close> statement before any job
  runs, while the statements under the \<^verbatim>\<open>with\<close>, run on their own, report 1/4 when
  job 0 reports 1.
\<close>

theorem sequential_run_reports_nothing:
  "reports_since (JobManager_init False initial_logging)
     (run_calls n [AddJob (WorkFn [1] False) 1, AddJob (WorkFn [] False) 3, RunSingleThreaded]
        (JobManager_init False initial_logging)) = []
   \<and> jobs (run_calls n
        [AddJob (WorkFn [1] False) 1, AddJob (WorkFn [] False) 3, RunSingleThreaded]
        (JobManager_init False initial_logging)) = []
   \<and> run_single_threaded
        (with_jobs [new_job 0 1 (WorkFn [1] False) 0, new_job 1 3 (WorkFn [] False) 1]
           (JobManager_init False initial_logging)) =
       Raised NotAContextManager
        (with_jobs [new_job 0 1 (WorkFn [1] False) 0, new_job 1 3 (WorkFn [] False) 1]
           (JobManager_init False initial_logging)\<lparr>lock := 0\<rparr>)
   \<and> map_option (\<lambda>s. progress_calls (sink s))
        (state_of (run_single_threaded_body
          (with_jobs [new_job 0 1 (WorkFn [1] False) 0, new_job 1 3 (WorkFn [] False) 1]
             (JobManager_init False initial_logging)))) = Some [1 / 4]"
  by (simp add: do_call_outcome run_single_threaded_outcome reports_since_def with_jobs_def
      new_job_def run_single_threaded_body_def run_local_def progress_local_def
      log_progress_in_def log_progress_def eta_overflows_def round_half_even_def
      timedelta_ok_def JobManager_init_def initial_logging_def upt_rec)

subsection \<open>Progress values\<close>

text \<open>
  A call of \<^verbatim>\<open>log_progress\<close> records its argument, returning or raising, and
  leaves the jobs and the total weight alone.
\<close>

lemma log_progress_in_effect:
  "\<exists>s'. state_of (log_progress_in a s) = Some s'
       \<and> jobs s' = jobs s \<and> total_weight s' = total_weight s
       \<and> progress_calls (sink s') = progress_calls (sink s) @ [a]
       \<and> warnings_as_errors (sink s') = warnings_as_errors (sink s)"
  by (simp add: log_progress_in_def log_progress_def Let_def)

lemma within_weight_update:
  "list_all within_weight js \<Longrightarrow> within_weight j \<Longrightarrow> list_all within_weight (js[k := j])"
  by (auto simp: list_all_iff dest: set_update_subset_insert [THEN subsetD])

lemma scaled_progress_bounds:
  fixes p :: rat
  assumes "0 < w" "0 < t" "0 \<le> p" "p \<le> 1"
  shows "0 \<le> of_int w / of_int t * p" "of_int w / of_int t * p \<le> of_int w"
proof -
  have t1: "(1::rat) \<le> of_int t" using assms(2) by (simp add: int_one_le_iff_zero_less)
  have w0: "(0::rat) \<le> of_int w" using assms(1) by simp
  have q0: "(0::rat) \<le> of_int w / of_int t" using w0 t1 by simp
  show "0 \<le> of_int w / of_int t * p" using q0 assms(3) by (rule mult_nonneg_nonneg)
  have "of_int w * 1 \<le> (of_int w :: rat) * of_int t"
    using t1 w0 by (rule mult_left_mono)
  then have "of_int w / of_int t \<le> (of_int w :: rat)"
    using t1 by (simp add: divide_le_eq)
  moreover have "of_int w / of_int t * p \<le> of_int w / of_int t * 1"
    using assms(4) q0 by (rule mult_left_mono)
  ultimately show "of_int w / of_int t * p \<le> of_int w" by simp
qed

text \<open>
  Claim C4, as stated, at one job of weight 2 that reports a local progress of 1 through
  its channel: \<^verbatim>\<open>_progress_reporter\<close> sends 1 to the sink, while
  \<^verbatim>\<open>sum(job.progress) / total_weight\<close> is 1/2 afterwards.
\<close>

theorem progress_reporter_aggregate_counterexample:
  "last (progress_calls (sink (after (progress_reporter 1 0
      (with_jobs [new_job 0 2 (WorkFn [1] False) 0] (JobManager_init True initial_logging)))
      (with_jobs [new_job 0 2 (WorkFn [1] False) 0] (JobManager_init True initial_logging))))) = 1
   \<and> sum_list (map progress (jobs (after (progress_reporter 1 0
      (with_jobs [new_job 0 2 (WorkFn [1] False) 0] (JobManager_init True initial_logging)))
      (with_jobs [new_job 0 2 (WorkFn [1] False) 0] (JobManager_init True initial_logging)))))
     / of_int (total_weight (after (progress_reporter 1 0
      (with_jobs [new_job 0 2 (WorkFn [1] False) 0] (JobManager_init True initial_logging)))
      (with_jobs [new_job 0 2 (WorkFn [1] False) 0] (JobManager_init True initial_logging))))
     = 1 / 2"
  by (simp add: after_def progress_reporter_def job_index_def with_jobs_def new_job_def
      log_progress_in_def log_progress_def eta_overflows_def round_half_even_def
      timedelta_ok_def JobManager_init_def initial_logging_def)

text \<open>
  Claim C4, amended. Let every job satisfy \<^verbatim>\<open>0 <= job.progress <= job.weight\<close>,
  let job \<open>k\<close> have a positive weight, the total weight be positive and the local
  progress \<open>p\<close> lie in [0, 1]. After a report of \<open>p\<close> for job \<open>k\<close> through
  \<^verbatim>\<open>_progress_reporter\<close> (parallel mode), every job still satisfies the bound, the
  job's progress is \<^verbatim>\<open>weight / total_weight * p\<close>, and the last value sent to the
  sink is \<^verbatim>\<open>sum(job.progress)\<close>, not divided by the total weight. After a report
  through \<^verbatim>\<open>_progress_local\<close> (sequential mode), every job still satisfies the
  bound, the job's progress is \<open>p\<close>, and the last value sent to the sink is
  \<^verbatim>\<open>(start + weight * p) / total_weight\<close>.
\<close>

theorem progress_within_weight:
  assumes "k < length (jobs s)" and "list_all within_weight (jobs s)"
    and "0 < weight (jobs s ! k)" and "0 < total_weight s" and "0 \<le> p" and "p \<le> 1"
  shows "list_all within_weight (jobs (after (progress_reporter p (int k) s) s))
       \<and> progress (jobs (after (progress_reporter p (int k) s) s) ! k) =
           of_int (weight (jobs s ! k)) / of_int (total_weight s) * p
       \<and> last (progress_calls (sink (after (progress_reporter p (int k) s) s))) =
           sum_list (map progress (jobs (after (progress_reporter p (int k) s) s)))
       \<and> list_all within_weight (jobs (after (progress_local k p cum (total_weight s) s) s))
       \<and> progress (jobs (after (progress_local k p cum (total_weight s) s) s) ! k) = p
       \<and> last (progress_calls (sink (after (progress_local k p cum (total_weight s) s) s))) =
           (of_int cum + of_int (weight (jobs s ! k)) * p) / of_int (total_weight s)"
proof -
  define w :: rat where "w = of_int (weight (jobs s ! k)) / of_int (total_weight s)"
  define s1 where "s1 = s\<lparr>jobs := (jobs s)[k := (jobs s ! k)\<lparr>progress := w * p\<rparr>]\<rparr>"
  define a where "a = sum_list (map progress (jobs s1))"
  have ix: "job_index (jobs s) (int k) = Some k"
    using assms(1) by (simp add: job_index_def)
  have pr: "progress_reporter p (int k) s = log_progress_in a s1"
    using ix assms(4) by (simp add: progress_reporter_def Let_def a_def s1_def w_def)
  obtain s' where s': "state_of (log_progress_in a s1) = Some s'" "jobs s' = jobs s1"
    "progress_calls (sink s') = progress_calls (sink s1) @ [a]"
    using log_progress_in_effect by blast
  have af: "after (progress_reporter p (int k) s) s = s'"
    by (simp only: after_def pr s'(1) option.case)
  have b1: "within_weight ((jobs s ! k)\<lparr>progress := w * p\<rparr>)"
    using scaled_progress_bounds [OF assms(3) assms(4) assms(5) assms(6)]
    by (simp add: within_weight_def w_def)
  have j1: "jobs s1 = (jobs s)[k := (jobs s ! k)\<lparr>progress := w * p\<rparr>]"
    by (simp add: s1_def)
  have par: "list_all within_weight (jobs s') \<and> progress (jobs s' ! k) = w * p
       \<and> last (progress_calls (sink s')) = sum_list (map progress (jobs s'))"
    using assms(1) within_weight_update [OF assms(2) b1] by (simp add: s' j1 a_def)
  define b :: rat
    where "b = (of_int cum + of_int (weight (jobs s ! k)) * p) / of_int (total_weight s)"
  define t1 where "t1 = s\<lparr>jobs := (jobs s)[k := (jobs s ! k)\<lparr>progress := p\<rparr>]\<rparr>"
  have pl: "progress_local k p cum (total_weight s) s = log_progress_in b t1"
    using assms(1) assms(4) by (simp add: progress_local_def Let_def b_def t1_def)
  obtain t' where t': "state_of (log_progress_in b t1) = Some t'" "jobs t' = jobs t1"
    "progress_calls (sink t') = progress_calls (sink t1) @ [b]"
    using log_progress_in_effect by blast
  have ag: "after (progress_local k p cum (total_weight s) s) s = t'"
    by (simp only: after_def pl t'(1) option.case)
  have "(1::rat) \<le> of_int (weight (jobs s ! k))"
    using assms(3) by (simp add: int_one_le_iff_zero_less)
  with assms(6) have "p \<le> of_int (weight (jobs s ! k))" by simp
  then have b2: "within_weight ((jobs s ! k)\<lparr>progress := p\<rparr>)"
    using assms(5) by (simp add: within_weight_def)
  have j2: "jobs t1 = (jobs s)[k := (jobs s ! k)\<lparr>progress := p\<rparr>]"
    by (simp add: t1_def)
  have seq: "list_all within_weight (jobs t') \<and> progress (jobs t' ! k) = p
       \<and> last (progress_calls (sink t')) = b"
    using assms(1) within_weight_update [OF assms(2) b2] by (simp add: t' j2)
  show ?thesis unfolding af ag using par seq by (simp add: w_def b_def)
qed


text \<open>
  The amended claim on jobs of weights 1 and 3, for a report of 1/2 by the second job.
\<close>

theorem progress_within_weight_witness:
  "list_all within_weight
     (jobs (after (progress_reporter (1 / 2) 1
        (with_jobs [new_job 0 1 (WorkFn [] False) 0, new_job 1 3 (WorkFn [] False) 1]
           (JobManager_init True initial_logging)))
        (with_jobs [new_job 0 1 (WorkFn [] False) 0, new_job 1 3 (WorkFn [] False) 1]
           (JobManager_init True initial_logging))))
   \<and> progress (jobs (after (progress_reporter (1 / 2) 1
        (with_jobs [new_job 0 1 (WorkFn [] False) 0, new_job 1 3 (WorkFn [] False) 1]
           (JobManager_init True initial_logging)))
        (with_jobs [new_job 0 1 (WorkFn [] False) 0, new_job 1 3 (WorkFn [] False) 1]
           (JobManager_init True initial_logging))) ! 1) = 3 / 8
   \<and> last (progress_calls (sink (after (progress_reporter (1 / 2) 1
        (with_jobs [new_job 0 1 (WorkFn [] False) 0, new_job 1 3 (WorkFn [] False) 1]
           (JobManager_init True initial_logging)))
        (with_jobs [new_job 0 1 (WorkFn [] False) 0, new_job 1 3 (WorkFn [] False) 1]
           (JobManager_init True initial_logging))))) =
       sum_list (map progress (jobs (after (progress_reporter (1 / 2) 1
        (with_jobs [new_job 0 1 (WorkFn [] False) 0, new_job 1 3 (WorkFn [] False) 1]
           (JobManager_init True initial_logging)))
        (with_jobs [new_job 0 1 (WorkFn [] False) 0, new_job 1 3 (WorkFn [] False) 1]
           (JobManager_init True initial_logging)))))
   \<and> progress (jobs (after (progress_local 1 (1 / 2) 1 4
        (with_jobs [new_job 0 1 (WorkFn [] False) 0, new_job 1 3 (WorkFn [] False) 1]
           (JobManager_init True initial_logging)))
        (with_jobs [new_job 0 1 (WorkFn [] False) 0, new_job 1 3 (WorkFn [] False) 1]
           (JobManager_init True initial_logging))) ! 1) = 1 / 2
   \<and> last (progress_calls (sink (after (progress_local 1 (1 / 2) 1 4
        (with_jobs [new_job 0 1 (WorkFn [] False) 0, new_job 1 3 (WorkFn [] False) 1]
           (JobManager_init True initial_logging)))
        (with_jobs [new_job 0 1 (WorkFn [] False) 0, new_job 1 3 (WorkFn [] False) 1]
           (JobManager_init True initial_logging))))) = 5 / 8"
proof -
  define m where "m = with_jobs [new_job 0 1 (WorkFn [] False) 0, new_job 1 3 (WorkFn [] False) 1]
           (JobManager_init True initial_logging)"
  have h: "1 < length (jobs m)" "list_all within_weight (jobs m)" "0 < weight (jobs m ! 1)"
    "0 < total_weight m" "(0::rat) \<le> 1 / 2" "(1::rat) / 2 \<le> 1"
    by (simp_all add: m_def with_jobs_def new_job_def within_weight_def)
  have t: "total_weight m = 4" "weight (jobs m ! 1) = 3"
    by (simp_all add: m_def with_jobs_def new_job_def)
  show ?thesis
    using progress_within_weight [OF h, of 1] unfolding t m_def [symmetric] by simp
qed

subsection \<open>Two sequential runs\<close>






















end
